theory Spec2Isabelle
  imports Complex_Main
begin

section \<open>The streaming chatbot component\<close>

text \<open>
  A shallow embedding of the event handlers of \<^verbatim>\<open>StreamingChatbotComponent\<close>: the
  WebSocket callbacks \<^verbatim>\<open>onopen\<close>, \<^verbatim>\<open>onclose\<close>, \<^verbatim>\<open>onerror\<close>, \<^verbatim>\<open>onmessage\<close>, and the
  form's \<^verbatim>\<open>handleSubmit\<close>. The component's React state is a record; each handler maps
  the state before the call to the state after it, the functional updaters given to
  \<^verbatim>\<open>setMessages\<close> being applied in the order of the calls.
\<close>

subsection \<open>JavaScript values\<close>

text \<open>
  The values that a message's \<^verbatim>\<open>text\<close> and a frame's \<^verbatim>\<open>content\<close> take: a string, or
  \<^verbatim>\<open>undefined\<close> when the frame has no \<^verbatim>\<open>content\<close>. \<^verbatim>\<open>NaN\<close> closes the type under
  \<^verbatim>\<open>+\<close> (\<^verbatim>\<open>undefined + undefined\<close>). A string is the list of its code units.
\<close>

datatype js_value = Undefined | Str string | NaN

text \<open>\<^verbatim>\<open>String(v)\<close>\<close>

fun to_string :: "js_value \<Rightarrow> string" where
  "to_string Undefined = ''undefined''"
| "to_string (Str s) = s"
| "to_string NaN = ''NaN''"

text \<open>
  \<^verbatim>\<open>a + b\<close>: concatenation of the operands' strings when one of them is a string;
  otherwise the sum of their numbers, which is \<^verbatim>\<open>NaN\<close> for \<^verbatim>\<open>undefined\<close> and \<^verbatim>\<open>NaN\<close>.
\<close>

fun js_add :: "js_value \<Rightarrow> js_value \<Rightarrow> js_value" where
  "js_add (Str a) b = Str (a @ to_string b)"
| "js_add a (Str b) = Str (to_string a @ b)"
| "js_add a b = NaN"

text \<open>Truthiness of a value (\<^verbatim>\<open>v || d\<close>, \<^verbatim>\<open>!v\<close>): the empty string, \<^verbatim>\<open>undefined\<close> and \<^verbatim>\<open>NaN\<close> are falsy.\<close>

fun truthy :: "js_value \<Rightarrow> bool" where
  "truthy (Str s) = (s \<noteq> [])"
| "truthy Undefined = False"
| "truthy NaN = False"

text \<open>\<^verbatim>\<open>a || b\<close>\<close>

definition js_or :: "js_value \<Rightarrow> js_value \<Rightarrow> js_value" where
  "js_or a b = (if truthy a then a else b)"

text \<open>
  \<^verbatim>\<open>String.prototype.trim\<close>: white space and line terminators are removed at both ends.
  These are the ones among the code units below 256.
\<close>

definition is_white_space :: "char \<Rightarrow> bool" where
  "is_white_space c = (of_char c \<in> {9, 10, 11, 12, 13, 32, 160 :: nat})"

definition trim :: "string \<Rightarrow> string" where
  "trim s = rev (dropWhile is_white_space (rev (dropWhile is_white_space s)))"

subsection \<open>Messages and component state\<close>

text \<open>
  One entry of \<^verbatim>\<open>messages\<close>. The \<^verbatim>\<open>id\<close> is \<^verbatim>\<open>Date.now() + Math.random()\<close>, a number the
  environment supplies at each creation. A user message has no \<^verbatim>\<open>hasAnswer\<close> property:
  \<open>None\<close>.
\<close>

record message =
  msg_id :: real
  msg_sender :: string
  msg_text :: js_value
  msg_hasAnswer :: "bool option"

text \<open>\<^verbatim>\<open>!last.hasAnswer\<close> reads a missing property as \<^verbatim>\<open>undefined\<close>, which is falsy.\<close>

fun has_answer :: "bool option \<Rightarrow> bool" where
  "has_answer None = False"
| "has_answer (Some b) = b"

text \<open>
  The \<^verbatim>\<open>useState\<close> cells of the component, and \<open>sent\<close>: the \<^verbatim>\<open>message\<close> texts of the frames
  \<^verbatim>\<open>JSON.stringify({ message: input })\<close> handed to \<^verbatim>\<open>socket.send\<close>, oldest first.
\<close>

record state =
  input :: string
  messages :: "message list"
  loading :: bool
  isConnected :: bool
  sent :: "string list"

definition initial :: state where
  "initial = \<lparr>input = [], messages = [], loading = False, isConnected = False, sent = []\<rparr>"

subsection \<open>Incoming frames\<close>

text \<open>
  The three properties that \<^verbatim>\<open>onmessage\<close> reads of the parsed frame. \<^verbatim>\<open>type\<close> and \<^verbatim>\<open>text\<close>
  are only compared by \<^verbatim>\<open>===\<close> with string literals: \<open>None\<close> stands for a missing
  property and for every value that is not a string. \<^verbatim>\<open>content\<close> is a string or missing,
  as the wire protocol has it.
\<close>

record data =
  data_type :: "string option"
  data_content :: js_value
  data_text :: "string option"

text \<open>
  What \<^verbatim>\<open>JSON.parse(event.data)\<close> does: it throws a \<^verbatim>\<open>SyntaxError\<close>, or returns \<^verbatim>\<open>null\<close>, or
  returns a value whose properties can be read (of a number, a string, a boolean or an
  array all three properties are missing).
\<close>

datatype parsed = Throws | Null | Data data

datatype js_error = SyntaxError | TypeError

text \<open>The updater of the \<^verbatim>\<open>token\<close> branch.\<close>

definition token_updater :: "js_value \<Rightarrow> real \<Rightarrow> message list \<Rightarrow> message list" where
  "token_updater content nid prev =
     (if prev \<noteq> [] \<and> msg_sender (last prev) = ''bot'' \<and> \<not> has_answer (msg_hasAnswer (last prev))
      then butlast prev @ [(last prev)\<lparr>msg_text := js_add (msg_text (last prev)) content\<rparr>]
      else prev @ [\<lparr>msg_id = nid, msg_sender = ''bot'', msg_text = content,
                    msg_hasAnswer = Some False\<rparr>])"

text \<open>The updater of the \<^verbatim>\<open>delimiter\<close> branch.\<close>

definition delimiter_updater :: "message list \<Rightarrow> message list" where
  "delimiter_updater prev =
     (if prev \<noteq> [] \<and> msg_sender (last prev) = ''bot''
      then butlast prev @ [(last prev)\<lparr>msg_hasAnswer := Some True\<rparr>]
      else prev)"

text \<open>The updater of the \<^verbatim>\<open>error\<close> branch.\<close>

definition error_updater :: "js_value \<Rightarrow> real \<Rightarrow> message list \<Rightarrow> message list" where
  "error_updater content nid prev =
     prev @ [\<lparr>msg_id = nid, msg_sender = ''bot'',
              msg_text = js_or content (Str ''An error occurred''),
              msg_hasAnswer = Some False\<rparr>]"

text \<open>
  The \<^verbatim>\<open>try\<close> block of \<^verbatim>\<open>ws.onmessage\<close>. \<^verbatim>\<open>JSON.parse\<close> may throw, and reading \<^verbatim>\<open>data.type\<close>
  of \<^verbatim>\<open>null\<close> throws a \<^verbatim>\<open>TypeError\<close>; both happen before any state is set. \<open>nid\<close> is the
  value of \<^verbatim>\<open>Date.now() + Math.random()\<close> in this call.
\<close>

definition try_block :: "parsed \<Rightarrow> real \<Rightarrow> state \<Rightarrow> js_error + state" where
  "try_block p nid st =
     (case p of
        Throws \<Rightarrow> Inl SyntaxError
      | Null \<Rightarrow> Inl TypeError
      | Data d \<Rightarrow>
          if data_type d = Some ''token'' then
            Inr (st\<lparr>messages := token_updater (data_content d) nid (messages st)\<rparr>)
          else if data_type d = Some ''delimiter'' \<and> data_text d = Some ''###'' then
            Inr (st\<lparr>messages := delimiter_updater (messages st), loading := False\<rparr>)
          else if data_type d = Some ''error'' then
            Inr (st\<lparr>messages := error_updater (data_content d) nid (messages st),
                     loading := False\<rparr>)
          else if data_type d = Some ''typing'' then Inr st
          else Inr st)"

text \<open>\<^verbatim>\<open>ws.onmessage\<close>: the \<^verbatim>\<open>catch\<close> clause logs the error and clears \<^verbatim>\<open>loading\<close>.\<close>

definition ws_onmessage :: "parsed \<Rightarrow> real \<Rightarrow> state \<Rightarrow> state" where
  "ws_onmessage p nid st =
     (case try_block p nid st of
        Inl error \<Rightarrow> st\<lparr>loading := False\<rparr>
      | Inr st' \<Rightarrow> st')"

subsection \<open>Connection callbacks\<close>

definition ws_onopen :: "state \<Rightarrow> state" where
  "ws_onopen st = st\<lparr>isConnected := True\<rparr>"

definition ws_onclose :: "state \<Rightarrow> state" where
  "ws_onclose st = st\<lparr>isConnected := False, loading := False\<rparr>"

definition ws_onerror :: "state \<Rightarrow> state" where
  "ws_onerror st = st\<lparr>isConnected := False, loading := False\<rparr>"

subsection \<open>Submitting a query\<close>

text \<open>\<^verbatim>\<open>WebSocket.readyState\<close>\<close>

datatype ready_state = CONNECTING | OPEN | CLOSING | CLOSED

text \<open>
  \<^verbatim>\<open>handleSubmit\<close>. \<open>rs\<close> is what \<^verbatim>\<open>socketRef.current?.readyState\<close> reads, \<open>None\<close> when the
  reference holds no socket; \<open>uid\<close> and \<open>bid\<close> are the two values of
  \<^verbatim>\<open>Date.now() + Math.random()\<close>.
\<close>

definition handleSubmit :: "ready_state option \<Rightarrow> real \<Rightarrow> real \<Rightarrow> state \<Rightarrow> state" where
  "handleSubmit rs uid bid st =
     (if trim (input st) = [] \<or> \<not> isConnected st then st
      else
        let userMessage = \<lparr>msg_id = uid, msg_sender = ''user'', msg_text = Str (input st),
                           msg_hasAnswer = None\<rparr>;
            st1 = st\<lparr>messages := messages st @ [userMessage], input := [], loading := True\<rparr>
        in if rs = Some OPEN then st1\<lparr>sent := sent st1 @ [input st]\<rparr>
           else st1\<lparr>messages := messages st1 @
                      [\<lparr>msg_id = bid, msg_sender = ''bot'',
                        msg_text = Str ''Connection lost. Please refresh the page to reconnect.'',
                        msg_hasAnswer = Some False\<rparr>],
                    loading := False\<rparr>)"

text \<open>The input field's \<^verbatim>\<open>onChange\<close>.\<close>

definition onChange :: "string \<Rightarrow> state \<Rightarrow> state" where
  "onChange v st = st\<lparr>input := v\<rparr>"

subsection \<open>Runs of the component\<close>

text \<open>
  The events of the mounted component, each with what its handler reads of the
  environment. A handler runs on the state that the previous one left. The cleanup of the
  effect runs when the component is unmounted, and its state with it; it is no event of
  a run.
\<close>

datatype event =
    Onopen
  | Onclose
  | Onerror
  | Onmessage parsed real
  | Change string
  | Submit "ready_state option" real real

fun step :: "event \<Rightarrow> state \<Rightarrow> state" where
  "step Onopen st = ws_onopen st"
| "step Onclose st = ws_onclose st"
| "step Onerror st = ws_onerror st"
| "step (Onmessage p nid) st = ws_onmessage p nid st"
| "step (Change v) st = onChange v st"
| "step (Submit rs uid bid) st = handleSubmit rs uid bid st"

fun run :: "event list \<Rightarrow> state \<Rightarrow> state" where
  "run [] st = st"
| "run (e # es) st = run es (step e st)"

subsection \<open>Frames of the wire protocol and open turns\<close>

text \<open>The frame \<^verbatim>\<open>{"type": "token", "content": c}\<close>, parsed.\<close>

definition Token :: "string \<Rightarrow> parsed" where
  "Token c = Data \<lparr>data_type = Some ''token'', data_content = Str c, data_text = None\<rparr>"

text \<open>The frame \<^verbatim>\<open>{"type": "delimiter", "text": "###"}\<close>, parsed.\<close>

definition FinalizeDelimiter :: parsed where
  "FinalizeDelimiter =
     Data \<lparr>data_type = Some ''delimiter'', data_content = Undefined, data_text = Some ''###''\<rparr>"

text \<open>
  The frame \<^verbatim>\<open>{"type": "error", "content": m}\<close>, parsed; \<^verbatim>\<open>{"type": "error"}\<close> when there
  is no message.
\<close>

definition ErrorSignal :: "string option \<Rightarrow> parsed" where
  "ErrorSignal m =
     Data \<lparr>data_type = Some ''error'',
           data_content = (case m of None \<Rightarrow> Undefined | Some s \<Rightarrow> Str s),
           data_text = None\<rparr>"

text \<open>An open assistant turn: a bot message whose \<^verbatim>\<open>hasAnswer\<close> is not true.\<close>

definition is_open :: "message \<Rightarrow> bool" where
  "is_open m = (msg_sender m = ''bot'' \<and> \<not> has_answer (msg_hasAnswer m))"

definition open_turns :: "message list \<Rightarrow> nat" where
  "open_turns ms = length (filter is_open ms)"

text \<open>The test of the \<^verbatim>\<open>token\<close> branch: the last message exists and is an open bot message.\<close>

definition last_open :: "message list \<Rightarrow> bool" where
  "last_open ms = (ms \<noteq> [] \<and> is_open (last ms))"

text \<open>No message before the last one is an open bot message.\<close>

definition only_last_open :: "message list \<Rightarrow> bool" where
  "only_last_open ms = (\<forall>m \<in> set (butlast ms). \<not> is_open m)"

text \<open>
  The events that append a bot or user message without looking at the transcript: an
  \<^verbatim>\<open>error\<close> frame, and a submit that passes the guard of \<^verbatim>\<open>handleSubmit\<close>.
\<close>

fun appends_turn :: "event \<Rightarrow> state \<Rightarrow> bool" where
  "appends_turn (Onmessage (Data d) nid) st =
     (data_type d = Some ''error'')"
| "appends_turn (Submit rs uid bid) st = (trim (input st) \<noteq> [] \<and> isConnected st)"
| "appends_turn e st = False"

text \<open>
  A run in which each such event is processed when the last message is not an open bot
  message.
\<close>

fun well_timed :: "event list \<Rightarrow> state \<Rightarrow> bool" where
  "well_timed [] st = True"
| "well_timed (e # es) st =
     ((appends_turn e st \<longrightarrow> \<not> last_open (messages st)) \<and> well_timed es (step e st))"

section \<open>Properties of the handlers\<close>

subsection \<open>The branches of \<^verbatim>\<open>ws.onmessage\<close>\<close>

lemma ws_onmessage_token:
  "data_type d = Some ''token'' \<Longrightarrow>
   ws_onmessage (Data d) nid st = st\<lparr>messages := token_updater (data_content d) nid (messages st)\<rparr>"
  by (simp add: ws_onmessage_def try_block_def)

lemma ws_onmessage_delimiter:
  "data_type d = Some ''delimiter'' \<Longrightarrow> data_text d = Some ''###'' \<Longrightarrow>
   ws_onmessage (Data d) nid st = st\<lparr>messages := delimiter_updater (messages st), loading := False\<rparr>"
  by (simp add: ws_onmessage_def try_block_def)

lemma ws_onmessage_error:
  "data_type d = Some ''error'' \<Longrightarrow>
   ws_onmessage (Data d) nid st =
     st\<lparr>messages := error_updater (data_content d) nid (messages st), loading := False\<rparr>"
  by (simp add: ws_onmessage_def try_block_def)

lemma ws_onmessage_other:
  "data_type d \<noteq> Some ''token'' \<Longrightarrow> data_type d \<noteq> Some ''error'' \<Longrightarrow>
   \<not> (data_type d = Some ''delimiter'' \<and> data_text d = Some ''###'') \<Longrightarrow>
   ws_onmessage (Data d) nid st = st"
  by (auto simp add: ws_onmessage_def try_block_def)

lemma ws_onmessage_caught:
  "ws_onmessage Throws nid st = st\<lparr>loading := False\<rparr>"
  "ws_onmessage Null nid st = st\<lparr>loading := False\<rparr>"
  by (simp_all add: ws_onmessage_def try_block_def)

lemma token_updater_Nil:
  "token_updater c n [] = [\<lparr>msg_id = n, msg_sender = ''bot'', msg_text = c, msg_hasAnswer = Some False\<rparr>]"
  by (simp add: token_updater_def)

lemma token_updater_snoc:
  "token_updater c n (ys @ [y]) =
     (if is_open y then ys @ [y\<lparr>msg_text := js_add (msg_text y) c\<rparr>]
      else ys @ [y, \<lparr>msg_id = n, msg_sender = ''bot'', msg_text = c, msg_hasAnswer = Some False\<rparr>])"
  by (simp add: token_updater_def is_open_def)

lemma token_updater_not_last_open:
  "\<not> last_open ms \<Longrightarrow>
   token_updater c n ms = ms @ [\<lparr>msg_id = n, msg_sender = ''bot'', msg_text = c, msg_hasAnswer = Some False\<rparr>]"
  by (auto simp add: token_updater_def last_open_def is_open_def)

lemma delimiter_updater_Nil: "delimiter_updater [] = []"
  by (simp add: delimiter_updater_def)

lemma delimiter_updater_snoc:
  "delimiter_updater (ys @ [y]) =
     (if msg_sender y = ''bot'' then ys @ [y\<lparr>msg_hasAnswer := Some True\<rparr>] else ys @ [y])"
  by (simp add: delimiter_updater_def)

lemma delimiter_updater_idem: "delimiter_updater (delimiter_updater ms) = delimiter_updater ms"
  by (cases ms rule: rev_cases) (simp_all add: delimiter_updater_Nil delimiter_updater_snoc)

lemma open_turns_snoc: "open_turns (ys @ [y]) = open_turns ys + (if is_open y then 1 else 0)"
  by (simp add: open_turns_def)

lemma only_last_open_snoc: "only_last_open (ys @ [y]) = (\<forall>m \<in> set ys. \<not> is_open m)"
  by (simp add: only_last_open_def)

lemma only_last_open_bound: "only_last_open ms \<Longrightarrow> open_turns ms \<le> 1"
  by (cases ms rule: rev_cases)
     (simp_all add: open_turns_def only_last_open_snoc)

lemma only_last_open_token: "only_last_open ms \<Longrightarrow> only_last_open (token_updater c n ms)"
  by (cases ms rule: rev_cases)
     (simp_all add: token_updater_Nil token_updater_snoc only_last_open_def butlast_append)

lemma only_last_open_delimiter: "only_last_open ms \<Longrightarrow> only_last_open (delimiter_updater ms)"
  by (cases ms rule: rev_cases)
     (simp_all add: delimiter_updater_Nil delimiter_updater_snoc only_last_open_snoc)

lemma only_last_open_append1:
  "only_last_open ms \<Longrightarrow> \<not> last_open ms \<Longrightarrow> only_last_open (ms @ [m])"
  by (cases ms rule: rev_cases) (simp_all add: only_last_open_def last_open_def butlast_append)

lemma not_last_open_user: "msg_sender m = ''user'' \<Longrightarrow> \<not> last_open (ms @ [m])"
  by (simp add: last_open_def is_open_def)

lemma only_last_open_error:
  "only_last_open ms \<Longrightarrow> \<not> last_open ms \<Longrightarrow> only_last_open (error_updater c n ms)"
  by (simp add: error_updater_def only_last_open_append1)

lemma only_last_open_onmessage:
  assumes "only_last_open (messages st)"
    and "appends_turn (Onmessage p nid) st \<longrightarrow> \<not> last_open (messages st)"
  shows "only_last_open (messages (ws_onmessage p nid st))"
proof (cases p)
  case Throws
  with assms show ?thesis by (simp add: ws_onmessage_caught)
next
  case Null
  with assms show ?thesis by (simp add: ws_onmessage_caught)
next
  case (Data d)
  consider (tok) "data_type d = Some ''token''"
    | (del) "data_type d = Some ''delimiter''" "data_text d = Some ''###''"
    | (err) "data_type d = Some ''error''"
    | (other) "data_type d \<noteq> Some ''token''" "data_type d \<noteq> Some ''error''"
        "\<not> (data_type d = Some ''delimiter'' \<and> data_text d = Some ''###'')"
    by blast
  then show ?thesis
  proof cases
    case tok
    with assms Data show ?thesis by (simp add: ws_onmessage_token only_last_open_token)
  next
    case del
    with assms Data show ?thesis by (simp add: ws_onmessage_delimiter only_last_open_delimiter)
  next
    case err
    with assms Data show ?thesis by (simp add: ws_onmessage_error only_last_open_error)
  next
    case other
    with assms Data show ?thesis by (simp add: ws_onmessage_other)
  qed
qed

lemma only_last_open_handleSubmit:
  assumes "only_last_open (messages st)"
    and "appends_turn (Submit rs uid bid) st \<longrightarrow> \<not> last_open (messages st)"
  shows "only_last_open (messages (handleSubmit rs uid bid st))"
proof (cases "trim (input st) = [] \<or> \<not> isConnected st")
  case True
  with assms show ?thesis by (simp add: handleSubmit_def)
next
  case False
  with assms have nl: "\<not> last_open (messages st)" by simp
  let ?u = "\<lparr>msg_id = uid, msg_sender = ''user'', msg_text = Str (input st), msg_hasAnswer = None\<rparr>"
  have u: "only_last_open (messages st @ [?u])"
    using assms(1) nl by (rule only_last_open_append1)
  have nu: "\<not> last_open (messages st @ [?u])"
    by (rule not_last_open_user) simp
  show ?thesis
  proof (cases "rs = Some OPEN")
    case True
    with False u show ?thesis by (simp add: handleSubmit_def Let_def)
  next
    case no: False
    have "only_last_open ((messages st @ [?u]) @
            [\<lparr>msg_id = bid, msg_sender = ''bot'',
              msg_text = Str ''Connection lost. Please refresh the page to reconnect.'',
              msg_hasAnswer = Some False\<rparr>])"
      using u nu by (rule only_last_open_append1)
    with False no show ?thesis by (simp add: handleSubmit_def Let_def)
  qed
qed

lemma only_last_open_step:
  assumes "only_last_open (messages st)"
    and "appends_turn e st \<longrightarrow> \<not> last_open (messages st)"
  shows "only_last_open (messages (step e st))"
proof (cases e)
  case (Onmessage p nid)
  with assms show ?thesis by (simp add: only_last_open_onmessage)
next
  case (Submit rs uid bid)
  with assms show ?thesis by (simp add: only_last_open_handleSubmit)
qed (use assms in \<open>simp_all add: ws_onopen_def ws_onclose_def ws_onerror_def onChange_def\<close>)

lemma only_last_open_run:
  "well_timed es st \<Longrightarrow> only_last_open (messages st) \<Longrightarrow> only_last_open (messages (run es st))"
proof (induction es arbitrary: st)
  case Nil
  then show ?case by simp
next
  case (Cons e es)
  from Cons.prems have "only_last_open (messages (step e st))"
    by (simp add: only_last_open_step)
  moreover from Cons.prems have "well_timed es (step e st)" by simp
  ultimately show ?case using Cons.IH by simp
qed

lemma well_timed_take: "well_timed es st \<Longrightarrow> well_timed (take k es) st"
proof (induction es arbitrary: st k)
  case Nil
  then show ?case by simp
next
  case (Cons e es)
  then show ?case by (cases k) simp_all
qed

lemma dropWhile_all_iff: "(\<forall>x \<in> set (dropWhile P xs). P x) \<longleftrightarrow> (\<forall>x \<in> set xs. P x)"
proof
  assume a: "\<forall>x \<in> set (dropWhile P xs). P x"
  have "dropWhile P xs = []"
  proof (rule ccontr)
    assume n: "dropWhile P xs \<noteq> []"
    then have "\<not> P (hd (dropWhile P xs))" by (rule hd_dropWhile)
    moreover from n have "hd (dropWhile P xs) \<in> set (dropWhile P xs)" by simp
    ultimately show False using a by blast
  qed
  then show "\<forall>x \<in> set xs. P x" by (simp add: dropWhile_eq_Nil_conv)
next
  assume "\<forall>x \<in> set xs. P x"
  then show "\<forall>x \<in> set (dropWhile P xs). P x" by (blast dest: set_dropWhileD)
qed

lemma trim_Nil_iff: "trim s = [] \<longleftrightarrow> (\<forall>c \<in> set s. is_white_space c)"
  by (simp add: trim_def dropWhile_eq_Nil_conv dropWhile_all_iff)

subsection \<open>Frames of the wire protocol\<close>

lemma ws_onmessage_Token:
  "ws_onmessage (Token c) nid st = st\<lparr>messages := token_updater (Str c) nid (messages st)\<rparr>"
  by (simp add: Token_def ws_onmessage_token)

lemma ws_onmessage_FinalizeDelimiter:
  "ws_onmessage FinalizeDelimiter nid st =
     st\<lparr>messages := delimiter_updater (messages st), loading := False\<rparr>"
  by (simp add: FinalizeDelimiter_def ws_onmessage_delimiter)

lemma ws_onmessage_ErrorSignal:
  "ws_onmessage (ErrorSignal m) nid st =
     st\<lparr>messages := messages st @
          [\<lparr>msg_id = nid, msg_sender = ''bot'',
            msg_text = Str (case m of None \<Rightarrow> ''An error occurred''
                            | Some s \<Rightarrow> if s = [] then ''An error occurred'' else s),
            msg_hasAnswer = Some False\<rparr>],
        loading := False\<rparr>"
  by (cases m) (simp_all add: ErrorSignal_def ws_onmessage_error error_updater_def js_or_def)

subsection \<open>Runs of token frames\<close>

lemma run_append: "run (es @ fs) st = run fs (run es st)"
  by (induction es arbitrary: st) simp_all

lemma is_open_text_update: "is_open (y\<lparr>msg_text := t\<rparr>) = is_open y"
  by (simp add: is_open_def)

text \<open>Tokens that find an open bot message at the end are appended to its text, in order.\<close>

lemma run_tokens_open:
  "messages st = ys @ [y] \<Longrightarrow> is_open y \<Longrightarrow> msg_text y = Str t \<Longrightarrow>
   messages (run (map (\<lambda>(c, n). Onmessage (Token c) n) toks) st) =
     ys @ [y\<lparr>msg_text := Str (t @ concat (map fst toks))\<rparr>]"
proof (induction toks arbitrary: st y t)
  case Nil
  then show ?case by simp
next
  case (Cons tok toks)
  obtain c n where tok: "tok = (c, n)" by (cases tok)
  let ?y = "y\<lparr>msg_text := Str (t @ c)\<rparr>"
  let ?st = "ws_onmessage (Token c) n st"
  have m: "messages ?st = ys @ [?y]"
    using Cons.prems by (simp add: ws_onmessage_Token token_updater_snoc)
  have o: "is_open ?y" using Cons.prems(2) by (simp add: is_open_text_update)
  have t: "msg_text ?y = Str (t @ c)" by simp
  have "messages (run (map (\<lambda>(c, n). Onmessage (Token c) n) toks) ?st) =
          ys @ [?y\<lparr>msg_text := Str ((t @ c) @ concat (map fst toks))\<rparr>]"
    using m o t by (rule Cons.IH)
  then show ?case by (simp add: tok)
qed

text \<open>The first token after anything else than an open bot message starts a new one.\<close>

lemma run_tokens_fresh:
  assumes "\<not> last_open (messages st)"
  shows "messages (run (map (\<lambda>(c, n). Onmessage (Token c) n) ((c, n) # toks)) st) =
     messages st @
       [\<lparr>msg_id = n, msg_sender = ''bot'', msg_text = Str (c @ concat (map fst toks)),
         msg_hasAnswer = Some False\<rparr>]"
proof -
  let ?y = "\<lparr>msg_id = n, msg_sender = ''bot'', msg_text = Str c, msg_hasAnswer = Some False\<rparr>"
  let ?st = "ws_onmessage (Token c) n st"
  have m: "messages ?st = messages st @ [?y]"
    using assms by (simp add: ws_onmessage_Token token_updater_not_last_open)
  have o: "is_open ?y" by (simp add: is_open_def)
  have t: "msg_text ?y = Str c" by simp
  have "messages (run (map (\<lambda>(c, n). Onmessage (Token c) n) toks) ?st) =
          messages st @ [?y\<lparr>msg_text := Str (c @ concat (map fst toks))\<rparr>]"
    using m o t by (rule run_tokens_open)
  then show ?thesis by simp
qed

lemma handleSubmit_sent:
  assumes "trim (input st) \<noteq> []" and "isConnected st"
  shows "handleSubmit (Some OPEN) uid bid st =
    st\<lparr>messages := messages st @
          [\<lparr>msg_id = uid, msg_sender = ''user'', msg_text = Str (input st), msg_hasAnswer = None\<rparr>],
       input := [], loading := True, sent := sent st @ [input st]\<rparr>"
  using assms by (simp add: handleSubmit_def Let_def)

subsection \<open>The connection flag and the loading flag\<close>

lemma not_connected_not_loading_step:
  assumes "\<not> isConnected st \<longrightarrow> \<not> loading st"
  shows "\<not> isConnected (step e st) \<longrightarrow> \<not> loading (step e st)"
proof (cases e)
  case (Onmessage p nid)
  show ?thesis
  proof (cases p)
    case (Data d)
    with Onmessage assms show ?thesis
      by (simp add: ws_onmessage_def try_block_def)
  qed (use Onmessage assms in \<open>simp_all add: ws_onmessage_caught\<close>)
next
  case (Submit rs uid bid)
  with assms show ?thesis by (simp add: handleSubmit_def Let_def)
qed (use assms in \<open>simp_all add: ws_onopen_def ws_onclose_def ws_onerror_def onChange_def\<close>)

lemma not_connected_not_loading_run:
  "\<not> isConnected st \<longrightarrow> \<not> loading st \<Longrightarrow>
   \<not> isConnected (run es st) \<longrightarrow> \<not> loading (run es st)"
proof (induction es arbitrary: st)
  case Nil
  then show ?case by simp
next
  case (Cons e es)
  from Cons.prems have "\<not> isConnected (step e st) \<longrightarrow> \<not> loading (step e st)"
    by (rule not_connected_not_loading_step)
  then show ?case using Cons.IH by simp
qed

section \<open>The claims\<close>

text \<open>
  C1, as stated: at most one bot message is open (\<^verbatim>\<open>hasAnswer\<close> not true) at every state,
  and a new bot message is created only when none is open, also by an \<^verbatim>\<open>error\<close> frame.
  This fails: an \<^verbatim>\<open>error\<close> frame after a token, and a token after a submit that follows
  an open bot message, each leave two open bot messages.
\<close>

theorem open_turns_counterexample:
  "open_turns (messages (run [Onmessage (Token ''a'') 1,
                              Onmessage (ErrorSignal (Some ''oops'')) 2] initial)) = 2 \<and>
   open_turns (messages (run [Onopen, Onmessage (Token ''a'') 1, Change ''x'',
                              Submit (Some OPEN) 2 3, Onmessage (Token ''b'') 4] initial)) = 2"
  by (simp add: initial_def ws_onmessage_Token ws_onmessage_ErrorSignal token_updater_def
      open_turns_def is_open_def ws_onopen_def onChange_def handleSubmit_def Let_def
      trim_def is_white_space_def)

text \<open>
  C1, amended: a token frame looks at the last message only. When that is an open bot
  message the token is appended to its text, and neither the number of messages nor the
  number of open bot messages changes; otherwise the token appends a new open bot
  message, whatever the earlier messages are. An \<^verbatim>\<open>error\<close> frame appends an open bot
  message, and a submit that passes the guard appends the user message (and the open
  \<^verbatim>\<open>Connection lost\<close> message when the socket is not \<^verbatim>\<open>OPEN\<close>), neither of them reading the
  transcript. In a run where every \<^verbatim>\<open>error\<close> frame and every submit that passes the guard
  is processed while the last message is not an open bot message, started where no
  message before the last is open, at most one bot message is open at every intermediate
  state.
\<close>

theorem one_open_turn_in_well_timed_runs:
  assumes "well_timed es st" and "only_last_open (messages st)"
  shows "open_turns (messages (run (take k es) st)) \<le> 1 \<and>
     (last_open (messages s) \<longrightarrow>
        messages (ws_onmessage (Token c) nid s) =
          butlast (messages s) @
            [(last (messages s))\<lparr>msg_text := js_add (msg_text (last (messages s))) (Str c)\<rparr>] \<and>
        length (messages (ws_onmessage (Token c) nid s)) = length (messages s) \<and>
        open_turns (messages (ws_onmessage (Token c) nid s)) = open_turns (messages s)) \<and>
     (\<not> last_open (messages s) \<longrightarrow>
        messages (ws_onmessage (Token c) nid s) =
          messages s @
            [\<lparr>msg_id = nid, msg_sender = ''bot'', msg_text = Str c, msg_hasAnswer = Some False\<rparr>] \<and>
        open_turns (messages (ws_onmessage (Token c) nid s)) = Suc (open_turns (messages s))) \<and>
     messages (ws_onmessage (ErrorSignal m) nid s) =
       messages s @
         [\<lparr>msg_id = nid, msg_sender = ''bot'',
           msg_text = Str (case m of None \<Rightarrow> ''An error occurred''
                           | Some e \<Rightarrow> if e = [] then ''An error occurred'' else e),
           msg_hasAnswer = Some False\<rparr>] \<and>
     open_turns (messages (ws_onmessage (ErrorSignal m) nid s)) = Suc (open_turns (messages s)) \<and>
     (trim (input s) \<noteq> [] \<and> isConnected s \<longrightarrow>
        messages (handleSubmit rs uid bid s) =
          messages s @
            \<lparr>msg_id = uid, msg_sender = ''user'', msg_text = Str (input s), msg_hasAnswer = None\<rparr> #
            (if rs = Some OPEN then []
             else [\<lparr>msg_id = bid, msg_sender = ''bot'',
                    msg_text = Str ''Connection lost. Please refresh the page to reconnect.'',
                    msg_hasAnswer = Some False\<rparr>]) \<and>
        open_turns (messages (handleSubmit rs uid bid s)) =
          (if rs = Some OPEN then open_turns (messages s) else Suc (open_turns (messages s))))"
proof -
  from assms(1) have "well_timed (take k es) st" by (rule well_timed_take)
  then have "only_last_open (messages (run (take k es) st))"
    using assms(2) by (rule only_last_open_run)
  then have a: "open_turns (messages (run (take k es) st)) \<le> 1"
    by (rule only_last_open_bound)
  have b: "last_open (messages s) \<longrightarrow>
        messages (ws_onmessage (Token c) nid s) =
          butlast (messages s) @
            [(last (messages s))\<lparr>msg_text := js_add (msg_text (last (messages s))) (Str c)\<rparr>] \<and>
        length (messages (ws_onmessage (Token c) nid s)) = length (messages s) \<and>
        open_turns (messages (ws_onmessage (Token c) nid s)) = open_turns (messages s)"
  proof
    assume l: "last_open (messages s)"
    then obtain ys y where m: "messages s = ys @ [y]" and o: "is_open y"
      by (cases "messages s" rule: rev_cases) (simp_all add: last_open_def)
    then show "messages (ws_onmessage (Token c) nid s) =
          butlast (messages s) @
            [(last (messages s))\<lparr>msg_text := js_add (msg_text (last (messages s))) (Str c)\<rparr>] \<and>
        length (messages (ws_onmessage (Token c) nid s)) = length (messages s) \<and>
        open_turns (messages (ws_onmessage (Token c) nid s)) = open_turns (messages s)"
      by (simp add: ws_onmessage_Token token_updater_snoc open_turns_snoc is_open_text_update)
  qed
  have c: "\<not> last_open (messages s) \<longrightarrow>
        messages (ws_onmessage (Token c) nid s) =
          messages s @
            [\<lparr>msg_id = nid, msg_sender = ''bot'', msg_text = Str c, msg_hasAnswer = Some False\<rparr>] \<and>
        open_turns (messages (ws_onmessage (Token c) nid s)) = Suc (open_turns (messages s))"
    by (simp add: ws_onmessage_Token token_updater_not_last_open open_turns_snoc is_open_def)
  have d: "messages (ws_onmessage (ErrorSignal m) nid s) =
       messages s @
         [\<lparr>msg_id = nid, msg_sender = ''bot'',
           msg_text = Str (case m of None \<Rightarrow> ''An error occurred''
                           | Some e \<Rightarrow> if e = [] then ''An error occurred'' else e),
           msg_hasAnswer = Some False\<rparr>]"
    by (simp add: ws_onmessage_ErrorSignal)
  have e: "open_turns (messages (ws_onmessage (ErrorSignal m) nid s)) = Suc (open_turns (messages s))"
    by (simp add: ws_onmessage_ErrorSignal open_turns_snoc is_open_def)
  have f: "trim (input s) \<noteq> [] \<and> isConnected s \<longrightarrow>
        messages (handleSubmit rs uid bid s) =
          messages s @
            \<lparr>msg_id = uid, msg_sender = ''user'', msg_text = Str (input s), msg_hasAnswer = None\<rparr> #
            (if rs = Some OPEN then []
             else [\<lparr>msg_id = bid, msg_sender = ''bot'',
                    msg_text = Str ''Connection lost. Please refresh the page to reconnect.'',
                    msg_hasAnswer = Some False\<rparr>]) \<and>
        open_turns (messages (handleSubmit rs uid bid s)) =
          (if rs = Some OPEN then open_turns (messages s) else Suc (open_turns (messages s)))"
    by (simp add: handleSubmit_def Let_def open_turns_def is_open_def)
  from a b c d e f show ?thesis by blast
qed

text \<open>
  A run with a submit and an \<^verbatim>\<open>error\<close> frame, each processed in time; a token after an
  open bot message and a token on the empty transcript; a submit that passes the guard.
\<close>

theorem one_open_turn_in_well_timed_runs_witness:
  "well_timed [Onopen, Change ''x'', Submit (Some OPEN) 1 2,
               Onmessage (ErrorSignal (Some ''oops'')) 3] initial \<and>
   only_last_open (messages initial) \<and>
   open_turns (messages (run (take 4 [Onopen, Change ''x'', Submit (Some OPEN) 1 2,
                                      Onmessage (ErrorSignal (Some ''oops'')) 3]) initial)) \<le> 1 \<and>
   last_open (messages (ws_onmessage (Token ''a'') 1 initial)) \<and>
   length (messages (ws_onmessage (Token ''b'') 2 (ws_onmessage (Token ''a'') 1 initial))) =
     length (messages (ws_onmessage (Token ''a'') 1 initial)) \<and>
   open_turns (messages (ws_onmessage (ErrorSignal None) 2 (ws_onmessage (Token ''a'') 1 initial))) =
     Suc (open_turns (messages (ws_onmessage (Token ''a'') 1 initial))) \<and>
   \<not> last_open (messages initial) \<and>
   open_turns (messages (ws_onmessage (Token ''b'') 2 initial)) =
     Suc (open_turns (messages initial)) \<and>
   trim (input (initial\<lparr>input := ''x'', isConnected := True\<rparr>)) \<noteq> [] \<and>
   isConnected (initial\<lparr>input := ''x'', isConnected := True\<rparr>) \<and>
   open_turns (messages (handleSubmit (Some CLOSED) 5 6
                 (initial\<lparr>input := ''x'', isConnected := True\<rparr>))) =
     Suc (open_turns (messages (initial\<lparr>input := ''x'', isConnected := True\<rparr>)))"
proof -
  let ?es = "[Onopen, Change ''x'', Submit (Some OPEN) 1 2,
              Onmessage (ErrorSignal (Some ''oops'')) 3]"
  let ?s = "ws_onmessage (Token ''a'') 1 initial"
  let ?c = "initial\<lparr>input := ''x'', isConnected := True\<rparr>"
  have w: "well_timed ?es initial"
    by (simp add: initial_def ErrorSignal_def ws_onopen_def onChange_def handleSubmit_def
        Let_def last_open_def is_open_def trim_def is_white_space_def)
  have i: "only_last_open (messages initial)"
    by (simp add: initial_def only_last_open_def)
  have l: "last_open (messages ?s)"
    by (simp add: initial_def ws_onmessage_Token token_updater_def last_open_def is_open_def)
  have n: "\<not> last_open (messages initial)"
    by (simp add: initial_def last_open_def)
  have h: "trim (input ?c) \<noteq> []" by (simp add: trim_def is_white_space_def)
  have g: "isConnected ?c" by simp
  have o: "Some CLOSED \<noteq> Some OPEN" by simp
  note t1 = one_open_turn_in_well_timed_runs [OF w i, of 4 ?s "''b''" 2 None "Some CLOSED" 5 6]
  note t2 = one_open_turn_in_well_timed_runs [OF w i, of 4 initial "''b''" 2 None "Some CLOSED" 5 6]
  note t3 = one_open_turn_in_well_timed_runs [OF w i, of 4 ?c "''b''" 2 None "Some CLOSED" 5 6]
  from t1 l have a: "open_turns (messages (run (take 4 ?es) initial)) \<le> 1"
    and b: "length (messages (ws_onmessage (Token ''b'') 2 ?s)) = length (messages ?s)"
    and c: "open_turns (messages (ws_onmessage (ErrorSignal None) 2 ?s)) =
              Suc (open_turns (messages ?s))"
    by blast+
  from t2 n have d: "open_turns (messages (ws_onmessage (Token ''b'') 2 initial)) =
      Suc (open_turns (messages initial))"
    by blast
  from t3 h g have "open_turns (messages (handleSubmit (Some CLOSED) 5 6 ?c)) =
      (if Some CLOSED = Some OPEN then open_turns (messages ?c) else Suc (open_turns (messages ?c)))"
    by blast
  with o have e: "open_turns (messages (handleSubmit (Some CLOSED) 5 6 ?c)) =
      Suc (open_turns (messages ?c))"
    by simp
  from w i a l b c n d h g e show ?thesis by blast
qed

text \<open>
  C2. After a submit that is sent, the tokens that arrive build one bot message whose text
  is the concatenation of their contents in arrival order, nothing in between; the
  finalize delimiter closes that message. The same holds from every state whose last
  message is not an open bot message (no message, a user message, a closed bot message),
  and a single token there creates a bot message with exactly its content and
  \<^verbatim>\<open>hasAnswer\<close> false.
\<close>

theorem tokens_concatenate:
  assumes "trim (input st) \<noteq> []" and "isConnected st"
  shows
   "messages (run (map (\<lambda>(c, n). Onmessage (Token c) n) ((c, n) # toks))
               (handleSubmit (Some OPEN) uid bid st)) =
      messages st @
        [\<lparr>msg_id = uid, msg_sender = ''user'', msg_text = Str (input st), msg_hasAnswer = None\<rparr>,
         \<lparr>msg_id = n, msg_sender = ''bot'', msg_text = Str (concat (map fst ((c, n) # toks))),
           msg_hasAnswer = Some False\<rparr>] \<and>
    messages (run (map (\<lambda>(c, n). Onmessage (Token c) n) ((c, n) # toks) @
                   [Onmessage FinalizeDelimiter nid])
               (handleSubmit (Some OPEN) uid bid st)) =
      messages st @
        [\<lparr>msg_id = uid, msg_sender = ''user'', msg_text = Str (input st), msg_hasAnswer = None\<rparr>,
         \<lparr>msg_id = n, msg_sender = ''bot'', msg_text = Str (concat (map fst ((c, n) # toks))),
           msg_hasAnswer = Some True\<rparr>] \<and>
    (\<not> last_open (messages s) \<longrightarrow>
       messages (run (map (\<lambda>(c, n). Onmessage (Token c) n) ((c, n) # toks)) s) =
         messages s @
           [\<lparr>msg_id = n, msg_sender = ''bot'', msg_text = Str (concat (map fst ((c, n) # toks))),
             msg_hasAnswer = Some False\<rparr>] \<and>
       messages (ws_onmessage (Token c) n s) =
         messages s @
           [\<lparr>msg_id = n, msg_sender = ''bot'', msg_text = Str c, msg_hasAnswer = Some False\<rparr>])"
proof -
  let ?u = "\<lparr>msg_id = uid, msg_sender = ''user'', msg_text = Str (input st), msg_hasAnswer = None\<rparr>"
  let ?st = "handleSubmit (Some OPEN) uid bid st"
  let ?toks = "map (\<lambda>(c, n). Onmessage (Token c) n) ((c, n) # toks)"
  let ?b = "\<lparr>msg_id = n, msg_sender = ''bot'', msg_text = Str (concat (map fst ((c, n) # toks))),
             msg_hasAnswer = Some False\<rparr>"
  have m: "messages ?st = messages st @ [?u]"
    using assms by (simp add: handleSubmit_sent)
  have "\<not> last_open (messages st @ [?u])" by (rule not_last_open_user) simp
  with m have "\<not> last_open (messages ?st)" by simp
  then have "messages (run ?toks ?st) =
      messages ?st @
        [\<lparr>msg_id = n, msg_sender = ''bot'', msg_text = Str (c @ concat (map fst toks)),
          msg_hasAnswer = Some False\<rparr>]"
    by (rule run_tokens_fresh)
  with m have a: "messages (run ?toks ?st) = messages st @ [?u, ?b]"
    by simp
  have "messages (run (?toks @ [Onmessage FinalizeDelimiter nid]) ?st) =
      delimiter_updater (messages (run ?toks ?st))"
    by (simp only: run_append run.simps step.simps ws_onmessage_FinalizeDelimiter) simp
  moreover have "delimiter_updater ((messages st @ [?u]) @ [?b]) =
        (messages st @ [?u]) @ [?b\<lparr>msg_hasAnswer := Some True\<rparr>]"
    by (simp only: delimiter_updater_snoc) simp
  ultimately have b: "messages (run (?toks @ [Onmessage FinalizeDelimiter nid]) ?st) =
      messages st @ [?u, ?b\<lparr>msg_hasAnswer := Some True\<rparr>]"
    using a by simp
  have c: "\<not> last_open (messages s) \<longrightarrow>
       messages (run ?toks s) = messages s @ [?b] \<and>
       messages (ws_onmessage (Token c) n s) =
         messages s @
           [\<lparr>msg_id = n, msg_sender = ''bot'', msg_text = Str c, msg_hasAnswer = Some False\<rparr>]"
  proof
    assume nl: "\<not> last_open (messages s)"
    then have "messages (run ?toks s) =
      messages s @
        [\<lparr>msg_id = n, msg_sender = ''bot'', msg_text = Str (c @ concat (map fst toks)),
          msg_hasAnswer = Some False\<rparr>]"
      by (rule run_tokens_fresh)
    moreover from nl have "messages (ws_onmessage (Token c) n s) =
         messages s @
           [\<lparr>msg_id = n, msg_sender = ''bot'', msg_text = Str c, msg_hasAnswer = Some False\<rparr>]"
      by (simp add: ws_onmessage_Token token_updater_not_last_open)
    ultimately show "messages (run ?toks s) = messages s @ [?b] \<and>
       messages (ws_onmessage (Token c) n s) =
         messages s @
           [\<lparr>msg_id = n, msg_sender = ''bot'', msg_text = Str c, msg_hasAnswer = Some False\<rparr>]"
      by simp
  qed
  from b have b': "messages (run (?toks @ [Onmessage FinalizeDelimiter nid]) ?st) =
      messages st @
        [?u, \<lparr>msg_id = n, msg_sender = ''bot'',
               msg_text = Str (concat (map fst ((c, n) # toks))), msg_hasAnswer = Some True\<rparr>]"
    by simp
  from a b' c show ?thesis by blast
qed

text \<open>
  Scenario A of the specification, and scenario D: a token as the first frame of all.
\<close>

theorem tokens_concatenate_witness:
  "trim (input (initial\<lparr>input := ''hi'', isConnected := True\<rparr>)) \<noteq> [] \<and>
   isConnected (initial\<lparr>input := ''hi'', isConnected := True\<rparr>) \<and>
   messages (run (map (\<lambda>(c, n). Onmessage (Token c) n) [(''Hel'', 3), (''lo!'', 4)] @
                  [Onmessage FinalizeDelimiter 5])
              (handleSubmit (Some OPEN) 1 2 (initial\<lparr>input := ''hi'', isConnected := True\<rparr>))) =
     [\<lparr>msg_id = 1, msg_sender = ''user'', msg_text = Str ''hi'', msg_hasAnswer = None\<rparr>,
      \<lparr>msg_id = 3, msg_sender = ''bot'', msg_text = Str ''Hello!'', msg_hasAnswer = Some True\<rparr>] \<and>
   \<not> last_open (messages initial) \<and>
   messages (ws_onmessage (Token ''Hel'') 3 initial) =
     [\<lparr>msg_id = 3, msg_sender = ''bot'', msg_text = Str ''Hel'', msg_hasAnswer = Some False\<rparr>]"
proof -
  let ?st = "initial\<lparr>input := ''hi'', isConnected := True\<rparr>"
  have h: "trim (input ?st) \<noteq> []" by (simp add: trim_def is_white_space_def)
  have c: "isConnected ?st" by simp
  have n: "\<not> last_open (messages initial)" by (simp add: initial_def last_open_def)
  have m: "messages ?st = []" "messages initial = []" "input ?st = ''hi''"
    by (simp_all add: initial_def)
  have k: "concat (map fst [(''Hel'', 3::real), (''lo!'', 4)]) = ''Hello!''" by simp
  note t = tokens_concatenate [OF h c, of "''Hel''" 3 "[(''lo!'', 4)]" 1 2 5 initial,
      unfolded m k append_Nil]
  have "\<not> last_open []" by (simp add: last_open_def)
  with t have "messages (ws_onmessage (Token ''Hel'') 3 initial) =
     [\<lparr>msg_id = 3, msg_sender = ''bot'', msg_text = Str ''Hel'', msg_hasAnswer = Some False\<rparr>]"
    by blast
  with t h c n show ?thesis by blast
qed

text \<open>
  C3. A frame that \<^verbatim>\<open>JSON.parse\<close> rejects leaves \<^verbatim>\<open>messages\<close> as it is and clears
  \<^verbatim>\<open>loading\<close>; the \<^verbatim>\<open>SyntaxError\<close> of the \<^verbatim>\<open>try\<close> block is caught, the handler returns a
  state.
\<close>

theorem malformed_frame_recovered:
  "try_block Throws nid st = Inl SyntaxError \<and>
   ws_onmessage Throws nid st = st\<lparr>loading := False\<rparr> \<and>
   messages (ws_onmessage Throws nid st) = messages st \<and>
   loading (ws_onmessage Throws nid st) = False"
  by (simp add: ws_onmessage_def try_block_def)

text \<open>
  C4, as stated: a submit of non-blank text while the connection is closed sends no frame
  and appends a bot message that reports the lost connection. This fails once
  \<^verbatim>\<open>onclose\<close> has run: \<^verbatim>\<open>isConnected\<close> is false, \<^verbatim>\<open>handleSubmit\<close> returns at its guard and
  the transcript stays empty.
\<close>

theorem submit_closed_counterexample:
  "trim (input (run [Onopen, Onclose, Change ''test''] initial)) \<noteq> [] \<and>
   \<not> isConnected (run [Onopen, Onclose, Change ''test''] initial) \<and>
   messages (handleSubmit (Some CLOSED) 1 2 (run [Onopen, Onclose, Change ''test''] initial)) = [] \<and>
   handleSubmit (Some CLOSED) 1 2 (run [Onopen, Onclose, Change ''test''] initial) =
     run [Onopen, Onclose, Change ''test''] initial"
  by (simp add: initial_def ws_onopen_def ws_onclose_def onChange_def handleSubmit_def
      trim_def is_white_space_def)

text \<open>
  C4, amended: a submit of non-blank text while the connection is not open (\<^verbatim>\<open>isConnected\<close>
  false, or the socket missing or not \<^verbatim>\<open>OPEN\<close>) sends no frame and throws nothing. With
  \<^verbatim>\<open>isConnected\<close> false the call changes nothing at all; with \<^verbatim>\<open>isConnected\<close> still true
  it appends the user message and the bot message \<^verbatim>\<open>Connection lost. Please refresh the
  page to reconnect.\<close>, and \<^verbatim>\<open>loading\<close> ends false.
\<close>

theorem submit_not_open:
  "trim (input st) \<noteq> [] \<Longrightarrow> rs \<noteq> Some OPEN \<or> \<not> isConnected st \<Longrightarrow>
   sent (handleSubmit rs uid bid st) = sent st \<and>
   (\<not> isConnected st \<longrightarrow> handleSubmit rs uid bid st = st) \<and>
   (isConnected st \<longrightarrow>
      messages (handleSubmit rs uid bid st) =
        messages st @
          [\<lparr>msg_id = uid, msg_sender = ''user'', msg_text = Str (input st), msg_hasAnswer = None\<rparr>,
           \<lparr>msg_id = bid, msg_sender = ''bot'',
             msg_text = Str ''Connection lost. Please refresh the page to reconnect.'',
             msg_hasAnswer = Some False\<rparr>] \<and>
      loading (handleSubmit rs uid bid st) = False)"
  by (auto simp add: handleSubmit_def Let_def)

theorem submit_not_open_witness:
  "trim (input (initial\<lparr>input := ''test''\<rparr>)) \<noteq> [] \<and>
   \<not> isConnected (initial\<lparr>input := ''test''\<rparr>) \<and>
   handleSubmit (Some OPEN) 1 2 (initial\<lparr>input := ''test''\<rparr>) = initial\<lparr>input := ''test''\<rparr> \<and>
   trim (input (initial\<lparr>input := ''test'', isConnected := True\<rparr>)) \<noteq> [] \<and>
   Some CLOSED \<noteq> Some OPEN \<and>
   sent (handleSubmit (Some CLOSED) 1 2 (initial\<lparr>input := ''test'', isConnected := True\<rparr>)) = [] \<and>
   messages (handleSubmit (Some CLOSED) 1 2 (initial\<lparr>input := ''test'', isConnected := True\<rparr>)) =
     [\<lparr>msg_id = 1, msg_sender = ''user'', msg_text = Str ''test'', msg_hasAnswer = None\<rparr>,
      \<lparr>msg_id = 2, msg_sender = ''bot'',
        msg_text = Str ''Connection lost. Please refresh the page to reconnect.'',
        msg_hasAnswer = Some False\<rparr>]"
proof -
  have h: "trim (input (initial\<lparr>input := ''test'', isConnected := True\<rparr>)) \<noteq> []"
    by (simp add: trim_def is_white_space_def)
  have c: "isConnected (initial\<lparr>input := ''test'', isConnected := True\<rparr>)" by simp
  have i: "input (initial\<lparr>input := ''test'', isConnected := True\<rparr>) = ''test''" by simp
  have m: "messages (initial\<lparr>input := ''test'', isConnected := True\<rparr>) = []"
    by (simp add: initial_def)
  have s: "sent (initial\<lparr>input := ''test'', isConnected := True\<rparr>) = []"
    by (simp add: initial_def)
  have h': "trim (input (initial\<lparr>input := ''test''\<rparr>)) \<noteq> []"
    by (simp add: trim_def is_white_space_def)
  have c': "\<not> isConnected (initial\<lparr>input := ''test''\<rparr>)" by (simp add: initial_def)
  from submit_not_open [OF h', of "Some OPEN" 1 2] c'
  have a: "handleSubmit (Some OPEN) 1 2 (initial\<lparr>input := ''test''\<rparr>) = initial\<lparr>input := ''test''\<rparr>"
    by blast
  from submit_not_open [OF h, of "Some CLOSED" 1 2] c
  have b: "sent (handleSubmit (Some CLOSED) 1 2 (initial\<lparr>input := ''test'', isConnected := True\<rparr>)) = [] \<and>
   messages (handleSubmit (Some CLOSED) 1 2 (initial\<lparr>input := ''test'', isConnected := True\<rparr>)) =
     [\<lparr>msg_id = 1, msg_sender = ''user'', msg_text = Str ''test'', msg_hasAnswer = None\<rparr>,
      \<lparr>msg_id = 2, msg_sender = ''bot'',
        msg_text = Str ''Connection lost. Please refresh the page to reconnect.'',
        msg_hasAnswer = Some False\<rparr>]"
    unfolding i m s by simp
  from h' c' a h b show ?thesis by simp
qed

text \<open>
  C5. \<^verbatim>\<open>onclose\<close> and \<^verbatim>\<open>onerror\<close> clear \<^verbatim>\<open>loading\<close> and \<^verbatim>\<open>isConnected\<close> and append no
  message; and in every state that the handlers reach from the initial one, \<^verbatim>\<open>loading\<close> is
  false whenever \<^verbatim>\<open>isConnected\<close> is false.
\<close>

theorem connection_end_clears_loading:
  "loading (ws_onclose st) = False \<and> isConnected (ws_onclose st) = False \<and>
   messages (ws_onclose st) = messages st \<and>
   loading (ws_onerror st) = False \<and> isConnected (ws_onerror st) = False \<and>
   messages (ws_onerror st) = messages st \<and>
   (\<not> isConnected (run es initial) \<longrightarrow> \<not> loading (run es initial))"
proof -
  have "\<not> isConnected initial \<longrightarrow> \<not> loading initial" by (simp add: initial_def)
  then have "\<not> isConnected (run es initial) \<longrightarrow> \<not> loading (run es initial)"
    by (rule not_connected_not_loading_run)
  then show ?thesis by (simp add: ws_onclose_def ws_onerror_def)
qed

text \<open>Scenario E of the specification: the connection fails while a query is awaited.\<close>

theorem connection_end_clears_loading_witness:
  "loading (run [Onopen, Change ''hi'', Submit (Some OPEN) 1 2] initial) \<and>
   \<not> isConnected (run [Onopen, Change ''hi'', Submit (Some OPEN) 1 2, Onerror] initial) \<and>
   \<not> loading (run [Onopen, Change ''hi'', Submit (Some OPEN) 1 2, Onerror] initial) \<and>
   messages (ws_onerror (run [Onopen, Change ''hi'', Submit (Some OPEN) 1 2] initial)) =
     messages (run [Onopen, Change ''hi'', Submit (Some OPEN) 1 2] initial)"
proof -
  have l: "loading (run [Onopen, Change ''hi'', Submit (Some OPEN) 1 2] initial)"
    by (simp add: initial_def ws_onopen_def onChange_def handleSubmit_def
        trim_def is_white_space_def Let_def)
  have c: "\<not> isConnected (run [Onopen, Change ''hi'', Submit (Some OPEN) 1 2, Onerror] initial)"
    by (simp add: initial_def ws_onopen_def onChange_def handleSubmit_def ws_onerror_def
        trim_def is_white_space_def Let_def)
  show ?thesis
    using l c
      connection_end_clears_loading
        [of "run [Onopen, Change ''hi'', Submit (Some OPEN) 1 2] initial"
            "[Onopen, Change ''hi'', Submit (Some OPEN) 1 2, Onerror]"]
    by blast
qed

text \<open>
  C6. The finalize delimiter is idempotent: a second one in a row changes no message, and
  \<^verbatim>\<open>loading\<close> is false after each.
\<close>

theorem finalize_idempotent:
  "ws_onmessage FinalizeDelimiter n2 (ws_onmessage FinalizeDelimiter n1 st) =
     ws_onmessage FinalizeDelimiter n1 st \<and>
   messages (ws_onmessage FinalizeDelimiter n2 (ws_onmessage FinalizeDelimiter n1 st)) =
     messages (ws_onmessage FinalizeDelimiter n1 st) \<and>
   loading (ws_onmessage FinalizeDelimiter n1 st) = False \<and>
   loading (ws_onmessage FinalizeDelimiter n2 (ws_onmessage FinalizeDelimiter n1 st)) = False"
  by (simp add: FinalizeDelimiter_def ws_onmessage_delimiter delimiter_updater_idem)

text \<open>
  C7. A submit whose input is empty after trimming changes nothing: no user message is
  appended, no frame is sent, \<^verbatim>\<open>loading\<close> is not set.
\<close>

theorem blank_submit_ignored:
  "trim (input st) = [] \<Longrightarrow>
   handleSubmit rs uid bid st = st \<and>
   messages (handleSubmit rs uid bid st) = messages st \<and>
   sent (handleSubmit rs uid bid st) = sent st \<and>
   loading (handleSubmit rs uid bid st) = loading st"
  by (simp add: handleSubmit_def)

theorem blank_submit_ignored_witness:
  "trim (input (initial\<lparr>input := '' '', isConnected := True\<rparr>)) = [] \<and>
   handleSubmit (Some OPEN) 1 2 (initial\<lparr>input := '' '', isConnected := True\<rparr>) =
     initial\<lparr>input := '' '', isConnected := True\<rparr>"
proof -
  have h: "trim (input (initial\<lparr>input := '' '', isConnected := True\<rparr>)) = []"
    by (simp add: trim_def is_white_space_def)
  show ?thesis
    using h blank_submit_ignored [OF h, of "Some OPEN" 1 2] by simp
qed

text \<open>
  C8. An \<^verbatim>\<open>error\<close> frame appends one bot message with \<^verbatim>\<open>hasAnswer\<close> false, whose text is
  the frame's \<^verbatim>\<open>content\<close>, or \<^verbatim>\<open>An error occurred\<close> when the content is missing or empty,
  and clears \<^verbatim>\<open>loading\<close>. Scenario B of the specification: a submit of \<^verbatim>\<open>x\<close>, then the
  error \<^verbatim>\<open>oops\<close>.
\<close>

theorem error_signal_appends:
  "ws_onmessage (ErrorSignal m) nid st =
     st\<lparr>messages := messages st @
          [\<lparr>msg_id = nid, msg_sender = ''bot'',
            msg_text = Str (case m of None \<Rightarrow> ''An error occurred''
                            | Some s \<Rightarrow> if s = [] then ''An error occurred'' else s),
            msg_hasAnswer = Some False\<rparr>],
        loading := False\<rparr> \<and>
   length (messages (ws_onmessage (ErrorSignal m) nid st)) = Suc (length (messages st)) \<and>
   loading (ws_onmessage (ErrorSignal m) nid st) = False \<and>
   messages (run [Onopen, Change ''x'', Submit (Some OPEN) uid bid,
                  Onmessage (ErrorSignal (Some ''oops'')) nid] initial) =
     [\<lparr>msg_id = uid, msg_sender = ''user'', msg_text = Str ''x'', msg_hasAnswer = None\<rparr>,
      \<lparr>msg_id = nid, msg_sender = ''bot'', msg_text = Str ''oops'', msg_hasAnswer = Some False\<rparr>] \<and>
   loading (run [Onopen, Change ''x'', Submit (Some OPEN) uid bid,
                 Onmessage (ErrorSignal (Some ''oops'')) nid] initial) = False"
  by (simp add: ws_onmessage_ErrorSignal initial_def ws_onopen_def onChange_def handleSubmit_def
      trim_def is_white_space_def Let_def)

text \<open>
  C9. A \<^verbatim>\<open>delimiter\<close> frame whose \<^verbatim>\<open>text\<close> is not \<^verbatim>\<open>"###"\<close> changes neither \<^verbatim>\<open>messages\<close> nor
  \<^verbatim>\<open>loading\<close>: a client that was loading is still loading, where the \<^verbatim>\<open>"###"\<close> delimiter
  clears the flag. The frame is handled as a frame of an unrecognized type is, which
  changes nothing either.
\<close>

theorem wrong_sentinel_ignored:
  "data_type d = Some ''delimiter'' \<Longrightarrow> data_text d \<noteq> Some ''###'' \<Longrightarrow>
   ws_onmessage (Data d) nid st = st \<and>
   messages (ws_onmessage (Data d) nid st) = messages st \<and>
   loading (ws_onmessage (Data d) nid st) = loading st \<and>
   loading (ws_onmessage FinalizeDelimiter nid st) = False \<and>
   (t \<notin> {Some ''token'', Some ''delimiter'', Some ''error''} \<longrightarrow>
      ws_onmessage (Data (d\<lparr>data_type := t\<rparr>)) nid st = st)"
  by (simp add: ws_onmessage_other ws_onmessage_delimiter FinalizeDelimiter_def)

theorem wrong_sentinel_ignored_witness:
  "data_type \<lparr>data_type = Some ''delimiter'', data_content = Undefined, data_text = Some ''##''\<rparr>
     = Some ''delimiter'' \<and>
   data_text \<lparr>data_type = Some ''delimiter'', data_content = Undefined, data_text = Some ''##''\<rparr>
     \<noteq> Some ''###'' \<and>
   loading (ws_onmessage
      (Data \<lparr>data_type = Some ''delimiter'', data_content = Undefined, data_text = Some ''##''\<rparr>)
      1 (initial\<lparr>loading := True\<rparr>)) = True \<and>
   Some ''ping'' \<notin> {Some ''token'', Some ''delimiter'', Some ''error''} \<and>
   loading (ws_onmessage
      (Data \<lparr>data_type = Some ''ping'', data_content = Undefined, data_text = Some ''##''\<rparr>)
      1 (initial\<lparr>loading := True\<rparr>)) = True"
  using wrong_sentinel_ignored
    [of "\<lparr>data_type = Some ''delimiter'', data_content = Undefined, data_text = Some ''##''\<rparr>"
        1 "initial\<lparr>loading := True\<rparr>" "Some ''ping''"]
  by simp

text \<open>
  C10. The bot message of an \<^verbatim>\<open>error\<close> frame is open like any other: a token that follows
  is appended to its text, and a finalize delimiter that follows sets its \<^verbatim>\<open>hasAnswer\<close>
  to true. After that the transcript is the one that a token with the same text and the
  delimiter would have left.
\<close>

theorem error_turn_not_protected:
  "(let t = (case m of None \<Rightarrow> ''An error occurred''
             | Some s \<Rightarrow> if s = [] then ''An error occurred'' else s);
        st1 = ws_onmessage (ErrorSignal m) n1 st
    in messages st1 =
         messages st @
           [\<lparr>msg_id = n1, msg_sender = ''bot'', msg_text = Str t, msg_hasAnswer = Some False\<rparr>] \<and>
       messages (ws_onmessage (Token c) n2 st1) =
         messages st @
           [\<lparr>msg_id = n1, msg_sender = ''bot'', msg_text = Str (t @ c),
             msg_hasAnswer = Some False\<rparr>] \<and>
       messages (ws_onmessage FinalizeDelimiter n3 st1) =
         messages st @
           [\<lparr>msg_id = n1, msg_sender = ''bot'', msg_text = Str t, msg_hasAnswer = Some True\<rparr>] \<and>
       (\<not> last_open (messages st) \<longrightarrow>
          messages (ws_onmessage FinalizeDelimiter n3 st1) =
          messages (ws_onmessage FinalizeDelimiter n3 (ws_onmessage (Token t) n1 st))))"
  by (simp add: Let_def ws_onmessage_ErrorSignal ws_onmessage_Token ws_onmessage_FinalizeDelimiter
      token_updater_snoc delimiter_updater_snoc is_open_def token_updater_not_last_open)

theorem error_turn_not_protected_witness:
  "\<not> last_open (messages initial) \<and>
   messages (ws_onmessage (Token ''!'') 2 (ws_onmessage (ErrorSignal (Some ''oops'')) 1 initial)) =
     [\<lparr>msg_id = 1, msg_sender = ''bot'', msg_text = Str ''oops!'', msg_hasAnswer = Some False\<rparr>] \<and>
   messages (ws_onmessage FinalizeDelimiter 3 (ws_onmessage (ErrorSignal (Some ''oops'')) 1 initial)) =
     messages (ws_onmessage FinalizeDelimiter 3 (ws_onmessage (Token ''oops'') 1 initial))"
proof -
  have n: "\<not> last_open (messages initial)" by (simp add: initial_def last_open_def)
  have m: "messages initial = []" by (simp add: initial_def)
  have c: "(case Some ''oops'' of None \<Rightarrow> ''An error occurred''
            | Some s \<Rightarrow> if s = [] then ''An error occurred'' else s) = ''oops''"
    by simp
  note t = error_turn_not_protected [of "Some ''oops''" 1 initial "''!''" 2 3, unfolded Let_def c]
  from t have a:
    "messages (ws_onmessage (Token ''!'') 2 (ws_onmessage (ErrorSignal (Some ''oops'')) 1 initial)) =
     [\<lparr>msg_id = 1, msg_sender = ''bot'', msg_text = Str ''oops!'', msg_hasAnswer = Some False\<rparr>]"
    by (simp add: m)
  from t n have b:
    "messages (ws_onmessage FinalizeDelimiter 3 (ws_onmessage (ErrorSignal (Some ''oops'')) 1 initial)) =
     messages (ws_onmessage FinalizeDelimiter 3 (ws_onmessage (Token ''oops'') 1 initial))"
    by blast
  from n a b show ?thesis by blast
qed

end
